theory Spec2Isabelle
  imports Complex_Main "HOL-Library.Product_Lexorder"
begin

section \<open>JavaScript values used by the backend\<close>

text \<open>
  A JavaScript Number is modelled by the rational it denotes, or by one of the three
  special values. Arithmetic on \<open>Fin\<close> is exact; the rounding of every operation to the
  nearest double is not modelled, but the overflow of a decimal literal to
  \<open>Infinity\<close> is (\<open>js_overflow\<close>), since the ingest guard distinguishes the special values.
\<close>

datatype jsnum = Fin rat | PosInf | NegInf | NaN

definition isNaN :: "jsnum \<Rightarrow> bool" where
  "isNaN n = (n = NaN)"


definition js_overflow :: "rat \<Rightarrow> jsnum" where
  "js_overflow r =
     (if 2 ^ 1024 - 2 ^ 970 \<le> r then PosInf
      else if r \<le> - (2 ^ 1024 - 2 ^ 970) then NegInf
      else Fin r)"

definition js_neg :: "jsnum \<Rightarrow> jsnum" where
  "js_neg n = (case n of Fin r \<Rightarrow> Fin (- r) | PosInf \<Rightarrow> NegInf | NegInf \<Rightarrow> PosInf | NaN \<Rightarrow> NaN)"

text \<open>\<open>x || 0\<close> on a Number: \<open>0\<close> and \<open>NaN\<close> are falsy.\<close>

definition js_or0 :: "jsnum \<Rightarrow> jsnum" where
  "js_or0 n = (if n = Fin 0 \<or> n = NaN then Fin 0 else n)"

text \<open>\<open>Math.round(x * 100) / 100\<close>: \<open>Math.round\<close> rounds half up.\<close>

definition js_mul100 :: "jsnum \<Rightarrow> jsnum" where
  "js_mul100 n = (case n of Fin r \<Rightarrow> js_overflow (r * 100) | s \<Rightarrow> s)"

definition Math_round :: "jsnum \<Rightarrow> jsnum" where
  "Math_round n = (case n of Fin r \<Rightarrow> Fin (of_int \<lfloor>r + 1 / 2\<rfloor>) | s \<Rightarrow> s)"

definition js_div100 :: "jsnum \<Rightarrow> jsnum" where
  "js_div100 n = (case n of Fin r \<Rightarrow> Fin (r / 100) | s \<Rightarrow> s)"

definition round2 :: "jsnum \<Rightarrow> jsnum" where
  "round2 n = js_div100 (Math_round (js_mul100 n))"

subsection \<open>Characters and digit strings\<close>

definition is_digit :: "char \<Rightarrow> bool" where
  "is_digit c = (48 \<le> (of_char c :: nat) \<and> (of_char c :: nat) \<le> 57)"

definition digits_val :: "string \<Rightarrow> nat" where
  "digits_val ds = foldl (\<lambda>a c. 10 * a + (of_char c - 48)) 0 ds"

text \<open>The ASCII members of ECMAScript's \<open>StrWhiteSpaceChar\<close> (TAB, LF, VT, FF, CR, SP).\<close>

definition js_whitespace :: "char \<Rightarrow> bool" where
  "js_whitespace c = ((of_char c :: nat) \<in> {9, 10, 11, 12, 13, 32})"

definition pow10 :: "int \<Rightarrow> rat" where
  "pow10 k = (if 0 \<le> k then 10 ^ nat k else 1 / 10 ^ nat (- k))"

text \<open>\<open>ToString\<close> of a possibly missing string property.\<close>

definition js_string_of :: "string option \<Rightarrow> string" where
  "js_string_of v = (case v of None \<Rightarrow> ''undefined'' | Some s \<Rightarrow> s)"

subsection \<open>\<open>parseFloat\<close>\<close>

text \<open>
  \<open>parseFloat\<close> reads the longest prefix of the input, after leading white space, that is
  a \<open>StrDecimalLiteral\<close>: an optional sign, then \<open>Infinity\<close> or decimal digits with an
  optional fraction and an optional exponent. No such prefix gives \<open>NaN\<close>.
\<close>

definition exponent_part :: "string \<Rightarrow> int" where
  "exponent_part s =
     (case s of
        [] \<Rightarrow> 0
      | c # t \<Rightarrow>
          if c = CHR ''e'' \<or> c = CHR ''E'' then
            (case t of
               [] \<Rightarrow> 0
             | d # u \<Rightarrow>
                 if d = CHR ''+'' then
                   (if takeWhile is_digit u = [] then 0 else int (digits_val (takeWhile is_digit u)))
                 else if d = CHR ''-'' then
                   (if takeWhile is_digit u = [] then 0 else - int (digits_val (takeWhile is_digit u)))
                 else
                   (if takeWhile is_digit t = [] then 0 else int (digits_val (takeWhile is_digit t))))
          else 0)"

definition unsigned_literal :: "string \<Rightarrow> jsnum" where
  "unsigned_literal s =
     (if take 8 s = ''Infinity'' then PosInf
      else
        let ip = takeWhile is_digit s;
            r1 = dropWhile is_digit s;
            has_dot = (case r1 of [] \<Rightarrow> False | c # _ \<Rightarrow> c = CHR ''.'');
            fp = (if has_dot then takeWhile is_digit (tl r1) else []);
            r2 = (if has_dot then dropWhile is_digit (tl r1) else r1)
        in if ip = [] \<and> fp = [] then NaN
           else js_overflow
                  (of_nat (digits_val (ip @ fp)) * pow10 (exponent_part r2 - int (length fp))))"

definition parseFloat :: "string option \<Rightarrow> jsnum" where
  "parseFloat v =
     (case dropWhile js_whitespace (js_string_of v) of
        [] \<Rightarrow> NaN
      | c # u \<Rightarrow>
          if c = CHR ''-'' then js_neg (unsigned_literal u)
          else if c = CHR ''+'' then unsigned_literal u
          else unsigned_literal (c # u))"

section \<open>CSV utilities (\<open>utils/csv.js\<close>)\<close>

text \<open>
  The libraries the module calls are parameters of the model:
  \<^item> \<open>csv_parse\<close>: the \<open>csv-parse\<close> stream with \<open>columns: true\<close>; it delivers the data rows as
    objects keyed by column name, in order, and then possibly an \<open>error\<close> event;
  \<^item> \<open>dayjs_utc_toISOString\<close>: \<open>dayjs.utc(v).toISOString()\<close>, with \<open>None\<close> when the date is
    invalid and \<open>toISOString\<close> throws a \<open>RangeError\<close>;
  \<^item> \<open>date_toString\<close> and \<open>number_toString\<close>: \<open>ToString\<close> of a \<open>Date\<close> and of a finite
    Number, as \<open>Array.prototype.join\<close> applies it;
  \<^item> \<open>date_toISOString\<close>: the ISO-8601 UTC text of an instant.
\<close>

text \<open>An instant is the time value of a \<open>Date\<close>: milliseconds since the epoch.\<close>

type_synonym instant = int

datatype csv_error =
    CSV_QUOTE_NOT_CLOSED
  | CSV_INVALID_CLOSING_QUOTE
  | INVALID_OPENING_QUOTE
  | CSV_NON_TRIMABLE_CHAR_AFTER_CLOSING_QUOTE
  | CSV_RECORD_INCONSISTENT_COLUMNS

type_synonym csv_record = "string \<rightharpoonup> string"

record runtime =
  csv_parse :: "string \<Rightarrow> csv_record list \<times> csv_error option"
  dayjs_utc_toISOString :: "string option \<Rightarrow> string option"
  date_toString :: "instant \<Rightarrow> string"
  date_toISOString :: "instant \<Rightarrow> string"
  number_toString :: "rat \<Rightarrow> string"

record reading =
  timestamp :: string
  consumption :: jsnum

datatype parse_failure = Rejected csv_error | Uncaught_RangeError

text \<open>The warning sign U+26A0 U+FE0F that opens the message, in UTF-8.\<close>

definition warning_sign :: string where
  "warning_sign = [CHR 0xE2, CHR 0x9A, CHR 0xA0, CHR 0xEF, CHR 0xB8, CHR 0x8F]"

definition invalid_consumption_warning :: "string option \<Rightarrow> string" where
  "invalid_consumption_warning v =
     warning_sign @ '' Invalid consumption value: '' @ js_string_of v"

text \<open>
  The \<open>data\<close> listener of \<open>parseCsv\<close>, run over the rows the stream delivers. The state is
  the \<open>records\<close> array and the lines written by \<open>console.warn\<close>. The timestamp is converted
  before the consumption is looked at, so an invalid date throws out of the listener
  whatever the consumption is; nothing catches it there, and the promise is left unsettled.
\<close>

fun on_data :: "runtime \<Rightarrow> csv_record list \<Rightarrow> reading list \<times> string list
    \<Rightarrow> parse_failure + reading list \<times> string list" where
  "on_data R [] st = Inr st"
| "on_data R (d # ds) (records, warnings) =
     (case dayjs_utc_toISOString R (d ''timestamp'') of
        None \<Rightarrow> Inl Uncaught_RangeError
      | Some ts \<Rightarrow>
          let c = parseFloat (d ''consumption'') in
          if isNaN c
          then on_data R ds (records, warnings @ [invalid_consumption_warning (d ''consumption'')])
          else on_data R ds (records @ [\<lparr>timestamp = ts, consumption = c\<rparr>], warnings))"

text \<open>
  \<open>parseCsv\<close>: the promise resolves with \<open>records\<close> on \<open>end\<close> and rejects on \<open>error\<close>; the rows
  delivered before an error have been handled by then.
\<close>

definition parseCsv :: "runtime \<Rightarrow> string \<Rightarrow> parse_failure + reading list \<times> string list" where
  "parseCsv R src =
     (case csv_parse R src of
        (rows, err) \<Rightarrow>
          (case on_data R rows ([], []) of
             Inl e \<Rightarrow> Inl e
           | Inr st \<Rightarrow> (case err of Some e \<Rightarrow> Inl (Rejected e) | None \<Rightarrow> Inr st)))"

text \<open>
  \<open>recordsToCsv\<close>. A row is an object; its property values are the JavaScript values
  the routes put there: strings, Numbers, \<open>Date\<close>s of the database driver, \<open>null\<close>.
\<close>

datatype jsvalue = JString string | JNumber jsnum | JDate instant | JNull | JUndefined

type_synonym js_object = "string \<rightharpoonup> jsvalue"

definition comma :: char where
  "comma = CHR 0x2C"

definition dquote :: char where
  "dquote = CHR 0x22"

definition newline :: char where
  "newline = CHR 0x0A"

definition js_number_toString :: "runtime \<Rightarrow> jsnum \<Rightarrow> string" where
  "js_number_toString R n =
     (case n of
        NaN \<Rightarrow> ''NaN''
      | PosInf \<Rightarrow> ''Infinity''
      | NegInf \<Rightarrow> ''-Infinity''
      | Fin r \<Rightarrow> number_toString R r)"

definition js_ToString :: "runtime \<Rightarrow> jsvalue \<Rightarrow> string" where
  "js_ToString R v =
     (case v of
        JString s \<Rightarrow> s
      | JNumber n \<Rightarrow> js_number_toString R n
      | JDate t \<Rightarrow> date_toString R t
      | JNull \<Rightarrow> ''null''
      | JUndefined \<Rightarrow> ''undefined'')"

text \<open>\<open>Array.prototype.join\<close>: \<open>undefined\<close> and \<open>null\<close> elements become the empty string.\<close>

definition join_element :: "runtime \<Rightarrow> jsvalue \<Rightarrow> string" where
  "join_element R v = (case v of JNull \<Rightarrow> [] | JUndefined \<Rightarrow> [] | _ \<Rightarrow> js_ToString R v)"

fun js_join :: "string \<Rightarrow> string list \<Rightarrow> string" where
  "js_join sep [] = []"
| "js_join sep [x] = x"
| "js_join sep (x # y # ys) = x @ sep @ js_join sep (y # ys)"

text \<open>\<open>value.replace(/"/g, '""')\<close>\<close>

fun replace_quotes :: "string \<Rightarrow> string" where
  "replace_quotes [] = []"
| "replace_quotes (c # cs) =
     (if c = dquote then dquote # dquote # replace_quotes cs else c # replace_quotes cs)"

text \<open>\<open>value.includes(ch)\<close> for a one-character search string.\<close>

fun str_includes :: "string \<Rightarrow> char \<Rightarrow> bool" where
  "str_includes [] ch = False"
| "str_includes (c # cs) ch = (c = ch \<or> str_includes cs ch)"

definition get_property :: "js_object \<Rightarrow> string \<Rightarrow> jsvalue" where
  "get_property record header = (case record header of None \<Rightarrow> JUndefined | Some v \<Rightarrow> v)"

definition csv_cell :: "jsvalue \<Rightarrow> jsvalue" where
  "csv_cell v =
     (case v of
        JString s \<Rightarrow>
          if str_includes s comma \<or> str_includes s dquote
          then JString ([dquote] @ replace_quotes s @ [dquote])
          else v
      | _ \<Rightarrow> v)"

definition recordsToCsv :: "runtime \<Rightarrow> js_object list \<Rightarrow> string list \<Rightarrow> string" where
  "recordsToCsv R records headers =
     (let csvHeaders = js_join [comma] headers;
          csvRows = map (\<lambda>record.
                      js_join [comma]
                        (map (\<lambda>header. join_element R (csv_cell (get_property record header))) headers))
                    records
      in js_join [newline] (csvHeaders # csvRows))"

section \<open>The CSV reader\<close>

text \<open>
  A model of the \<open>csv-parse\<close> stream for the options \<open>parseCsv\<close> passes (\<open>columns: true\<close>,
  \<open>skip_empty_lines: true\<close>, \<open>trim: true\<close>) and its defaults (delimiter comma, quote and
  escape the double quote, strict quotes, strict column count). The record delimiter is the
  line feed, which is what \<open>recordsToCsv\<close> writes; a carriage return before it is trimmed
  like any other white space around a field.
\<close>

definition trimable :: "char \<Rightarrow> bool" where
  "trimable c = ((of_char c :: nat) \<in> {32, 9, 13, 10, 12})"

text \<open>
  The reader drops leading white space of a field character by character (\<open>trimable\<close>) and
  trailing white space with \<open>String.prototype.trimRight\<close>.
\<close>

definition rtrim :: "string \<Rightarrow> string" where
  "rtrim s = rev (dropWhile js_whitespace (rev s))"

record csv_state =
  cs_record :: "string list"
  cs_field :: string
  cs_quoting :: bool
  cs_wasQuoting :: bool
  cs_columns :: "string list option"
  cs_out :: "csv_record list"

definition csv_init :: csv_state where
  "csv_init = \<lparr>cs_record = [], cs_field = [], cs_quoting = False, cs_wasQuoting = False,
                cs_columns = None, cs_out = []\<rparr>"

definition append_char :: "char \<Rightarrow> csv_state \<Rightarrow> csv_state" where
  "append_char c st = st\<lparr>cs_field := cs_field st @ [c]\<rparr>"

definition onField :: "csv_state \<Rightarrow> csv_state" where
  "onField st =
     st\<lparr>cs_record := cs_record st @ [if cs_wasQuoting st then cs_field st else rtrim (cs_field st)],
        cs_field := [], cs_wasQuoting := False\<rparr>"

text \<open>A record as an object: with a repeated column name the later field wins.\<close>

definition record_object :: "string list \<Rightarrow> string list \<Rightarrow> csv_record" where
  "record_object columns vals = map_of (rev (zip columns vals))"

definition onRecord :: "csv_state \<Rightarrow> csv_error + csv_state" where
  "onRecord st =
     (case cs_columns st of
        None \<Rightarrow> Inr (st\<lparr>cs_columns := Some (cs_record st), cs_record := []\<rparr>)
      | Some columns \<Rightarrow>
          if length (cs_record st) \<noteq> length columns then Inl CSV_RECORD_INCONSISTENT_COLUMNS
          else Inr (st\<lparr>cs_out := cs_out st @ [record_object columns (cs_record st)],
                       cs_record := []\<rparr>))"

definition end_of_input :: "csv_state \<Rightarrow> csv_record list \<times> csv_error option" where
  "end_of_input st =
     (if cs_quoting st then (cs_out st, Some CSV_QUOTE_NOT_CLOSED)
      else if cs_wasQuoting st \<or> cs_record st \<noteq> [] \<or> cs_field st \<noteq> [] then
        (case onRecord (onField st) of
           Inl e \<Rightarrow> (cs_out st, Some e)
         | Inr st' \<Rightarrow> (cs_out st', None))
      else (cs_out st, None))"

text \<open>
  What the reader does with a character that is neither a quote nor, outside quotes, a
  delimiter: append it to the field, skip it as white space, or reject it when it follows
  a closed quote.
\<close>

datatype char_action = Append | Skip | Reject

definition field_char :: "csv_state \<Rightarrow> char \<Rightarrow> char_action" where
  "field_char st c =
     (let lappend = (cs_quoting st \<or> cs_field st \<noteq> [] \<or> \<not> trimable c);
          rappend = (\<not> cs_wasQuoting st)
      in if lappend \<and> rappend then Append
         else if \<not> trimable c then Reject
         else Skip)"

fun csv_scan :: "csv_state \<Rightarrow> string \<Rightarrow> csv_record list \<times> csv_error option" where
  "csv_scan st [] = end_of_input st"
| "csv_scan st (c # cs) =
     (if cs_quoting st \<and> c = dquote then
        (case cs of
           [] \<Rightarrow> csv_scan (st\<lparr>cs_quoting := False, cs_wasQuoting := True\<rparr>) cs
         | d # ds \<Rightarrow>
             if d = dquote then
               (case field_char st d of
                  Append \<Rightarrow> csv_scan (append_char d st) ds
                | Skip \<Rightarrow> csv_scan st ds
                | Reject \<Rightarrow> (cs_out st, Some CSV_NON_TRIMABLE_CHAR_AFTER_CLOSING_QUOTE))
             else if d = comma \<or> d = newline \<or> trimable d
             then csv_scan (st\<lparr>cs_quoting := False, cs_wasQuoting := True\<rparr>) cs
             else (cs_out st, Some CSV_INVALID_CLOSING_QUOTE))
      else if \<not> cs_quoting st \<and> c = dquote then
        (if cs_field st \<noteq> [] then (cs_out st, Some INVALID_OPENING_QUOTE)
         else csv_scan (st\<lparr>cs_quoting := True\<rparr>) cs)
      else if \<not> cs_quoting st \<and> c = newline then
        (if \<not> cs_wasQuoting st \<and> cs_record st = [] \<and> cs_field st = [] then csv_scan st cs
         else (case onRecord (onField st) of
                 Inl e \<Rightarrow> (cs_out st, Some e)
               | Inr st' \<Rightarrow> csv_scan st' cs))
      else if \<not> cs_quoting st \<and> c = comma then csv_scan (onField st) cs
      else
        (case field_char st c of
           Append \<Rightarrow> csv_scan (append_char c st) cs
         | Skip \<Rightarrow> csv_scan st cs
         | Reject \<Rightarrow> (cs_out st, Some CSV_NON_TRIMABLE_CHAR_AFTER_CLOSING_QUOTE)))"

definition csv_reader :: "string \<Rightarrow> csv_record list \<times> csv_error option" where
  "csv_reader src = csv_scan csv_init src"

section \<open>\<open>parseInt\<close> and the query string\<close>









section \<open>The reading store\<close>

text \<open>
  Table \<open>energy_data (id SERIAL PRIMARY KEY, timestamp TIMESTAMPTZ, consumption DOUBLE
  PRECISION)\<close> with its sequence. What the database engine does beyond the relational
  reading of a statement is a parameter:
  \<^item> \<open>stmt_fails k\<close>: the \<open>k\<close>-th statement of the request fails (connection loss and the like);
  \<^item> \<open>timestamptz_in\<close>: the conversion of a text parameter to a timestamp, \<open>None\<close> when the
    engine rejects the text;
  \<^item> \<open>float8_sum\<close>, \<open>float8_avg\<close>, \<open>float8_stddev\<close>: the floating-point aggregates over a
    non-empty column;
  \<^item> \<open>date_of\<close>: \<open>DATE(timestamp)\<close>.
\<close>

record energy_row =
  row_id :: int
  row_timestamp :: instant
  row_consumption :: jsnum

record store =
  energy_data :: "energy_row list"
  energy_data_id_seq :: int

record engine =
  stmt_fails :: "nat \<Rightarrow> bool"
  timestamptz_in :: "string \<Rightarrow> instant option"
  float8_sum :: "jsnum list \<Rightarrow> jsnum"
  float8_avg :: "jsnum list \<Rightarrow> jsnum"
  float8_stddev :: "jsnum list \<Rightarrow> jsnum"
  date_of :: "instant \<Rightarrow> int"

datatype storage_error = Storage_Error

definition run_query :: "engine \<Rightarrow> nat \<Rightarrow> 'a option \<Rightarrow> storage_error + 'a" where
  "run_query G k res =
     (if stmt_fails G k then Inl Storage_Error
      else case res of None \<Rightarrow> Inl Storage_Error | Some r \<Rightarrow> Inr r)"






section \<open>\<open>GET /data\<close>\<close>

text \<open>
  What a route answers: 200 with a body, 400 or 500 with an error message, or nothing at
  all when an exception escapes the handler.
\<close>

datatype 'a response =
    OK 'a
  | Bad_Request string
  | Internal_Server_Error string
  | Uncaught_Exception



definition default_page :: "int option \<Rightarrow> int" where
  "default_page p = (case p of None \<Rightarrow> 1 | Some n \<Rightarrow> if n = 0 \<or> n < 1 then 1 else n)"





section \<open>\<open>POST /data/upload\<close>\<close>









section \<open>\<open>GET /metrics\<close> and \<open>GET /metrics/summary\<close>\<close>

text \<open>
  The order of \<open>DOUBLE PRECISION\<close> values in the database: \<open>-Infinity\<close>, the finite values,
  \<open>Infinity\<close>, \<open>NaN\<close>. \<open>MAX\<close>, \<open>MIN\<close> and \<open>ORDER BY\<close> use it.
\<close>

definition f8_key :: "jsnum \<Rightarrow> nat \<times> rat" where
  "f8_key n = (case n of NegInf \<Rightarrow> (0, 0) | Fin r \<Rightarrow> (1, r) | PosInf \<Rightarrow> (2, 0) | NaN \<Rightarrow> (3, 0))"

definition f8_le :: "jsnum \<Rightarrow> jsnum \<Rightarrow> bool" where
  "f8_le a b = (f8_key a \<le> f8_key b)"

text \<open>An aggregate over no rows is \<open>NULL\<close>; \<open>COALESCE(x, 0)\<close> replaces it.\<close>

definition sql_aggregate :: "('a list \<Rightarrow> 'b) \<Rightarrow> 'a list \<Rightarrow> 'b option" where
  "sql_aggregate f xs = (if xs = [] then None else Some (f xs))"

definition coalesce0 :: "jsnum option \<Rightarrow> jsnum" where
  "coalesce0 v = (case v of None \<Rightarrow> Fin 0 | Some x \<Rightarrow> x)"

definition sql_max :: "jsnum list \<Rightarrow> jsnum option" where
  "sql_max xs =
     (case xs of [] \<Rightarrow> None | x # r \<Rightarrow> Some (fold (\<lambda>a m. if f8_le m a then a else m) r x))"

definition sql_min :: "jsnum list \<Rightarrow> jsnum option" where
  "sql_min xs =
     (case xs of [] \<Rightarrow> None | x # r \<Rightarrow> Some (fold (\<lambda>a m. if f8_le a m then a else m) r x))"

definition sql_max_timestamp :: "instant list \<Rightarrow> instant option" where
  "sql_max_timestamp ts = (case ts of [] \<Rightarrow> None | x # r \<Rightarrow> Some (fold max r x))"

definition sql_min_timestamp :: "instant list \<Rightarrow> instant option" where
  "sql_min_timestamp ts = (case ts of [] \<Rightarrow> None | x # r \<Rightarrow> Some (fold min r x))"

text \<open>A sample standard deviation needs two rows.\<close>

definition sql_stddev :: "engine \<Rightarrow> jsnum list \<Rightarrow> jsnum option" where
  "sql_stddev G xs = (if length xs < 2 then None else Some (float8_stddev G xs))"

text \<open>\<open>SELECT timestamp ... ORDER BY consumption DESC, timestamp DESC LIMIT 1\<close>\<close>

definition peak_lateral :: "energy_row list \<Rightarrow> energy_row list" where
  "peak_lateral rows =
     take 1 (rev (sort_key (\<lambda>r. (f8_key (row_consumption r), row_timestamp r)) rows))"

record metrics =
  count_points :: nat
  total_consumption :: jsnum
  avg_consumption :: jsnum
  peak_consumption :: jsnum
  peak_timestamp :: "instant option"

text \<open>The aggregate statement of \<open>GET /metrics\<close>; it returns one row whatever the table holds.\<close>

definition metrics_query :: "engine \<Rightarrow> energy_row list \<Rightarrow> metrics list" where
  "metrics_query G rows =
     (let cs = map row_consumption rows in
      [\<lparr>count_points = length rows,
        total_consumption = coalesce0 (sql_aggregate (float8_sum G) cs),
        avg_consumption = coalesce0 (sql_aggregate (float8_avg G) cs),
        peak_consumption = coalesce0 (sql_max cs),
        peak_timestamp = (case peak_lateral rows of [] \<Rightarrow> None | r # _ \<Rightarrow> Some (row_timestamp r))\<rparr>])"

definition metrics_default :: metrics where
  "metrics_default = \<lparr>count_points = 0, total_consumption = Fin 0, avg_consumption = Fin 0,
                       peak_consumption = Fin 0, peak_timestamp = None\<rparr>"

definition metrics_response :: "metrics \<Rightarrow> metrics" where
  "metrics_response r =
     \<lparr>count_points = count_points r,
      total_consumption = round2 (js_or0 (total_consumption r)),
      avg_consumption = round2 (js_or0 (avg_consumption r)),
      peak_consumption = round2 (js_or0 (peak_consumption r)),
      peak_timestamp = peak_timestamp r\<rparr>"

definition get_metrics :: "engine \<Rightarrow> store \<Rightarrow> metrics response" where
  "get_metrics G db =
     (case run_query G 0 (Some (metrics_query G (energy_data db))) of
        Inl _ \<Rightarrow> Internal_Server_Error ''Internal server error''
      | Inr rows \<Rightarrow>
          OK (metrics_response (case rows of [] \<Rightarrow> metrics_default | r # _ \<Rightarrow> r)))"

record summary =
  earliest_timestamp :: "instant option"
  latest_timestamp :: "instant option"
  min_consumption :: jsnum
  max_consumption :: jsnum
  consumption_stddev :: jsnum
  days_of_data :: nat

definition summary_query :: "engine \<Rightarrow> energy_row list \<Rightarrow> summary list" where
  "summary_query G rows =
     (let cs = map row_consumption rows; ts = map row_timestamp rows in
      [\<lparr>earliest_timestamp = sql_min_timestamp ts,
        latest_timestamp = sql_max_timestamp ts,
        min_consumption = coalesce0 (sql_min cs),
        max_consumption = coalesce0 (sql_max cs),
        consumption_stddev = coalesce0 (sql_stddev G cs),
        days_of_data = length (remdups (map (date_of G) ts))\<rparr>])"

text \<open>The fields of \<open>{}\<close> are \<open>undefined\<close>: \<open>Number(undefined)\<close> is \<open>NaN\<close>.\<close>

definition summary_default :: summary where
  "summary_default = \<lparr>earliest_timestamp = None, latest_timestamp = None, min_consumption = NaN,
                       max_consumption = NaN, consumption_stddev = NaN, days_of_data = 0\<rparr>"

definition summary_response :: "summary \<Rightarrow> summary" where
  "summary_response r =
     \<lparr>earliest_timestamp = earliest_timestamp r,
      latest_timestamp = latest_timestamp r,
      min_consumption = js_or0 (min_consumption r),
      max_consumption = js_or0 (max_consumption r),
      consumption_stddev = round2 (js_or0 (consumption_stddev r)),
      days_of_data = days_of_data r\<rparr>"

definition get_metrics_summary :: "engine \<Rightarrow> store \<Rightarrow> summary response" where
  "get_metrics_summary G db =
     (case run_query G 0 (Some (summary_query G (energy_data db))) of
        Inl _ \<Rightarrow> Internal_Server_Error ''Internal server error''
      | Inr rows \<Rightarrow>
          OK (summary_response (case rows of [] \<Rightarrow> summary_default | r # _ \<Rightarrow> r)))"

section \<open>\<open>GET /export/data.csv\<close>\<close>






section \<open>Notions used by the properties\<close>

text \<open>The data rows of a source, and the validation the \<open>data\<close> listener applies to one.\<close>

definition data_rows :: "runtime \<Rightarrow> string \<Rightarrow> csv_record list" where
  "data_rows R src = fst (csv_parse R src)"

definition passes_validation :: "csv_record \<Rightarrow> bool" where
  "passes_validation d = (\<not> isNaN (parseFloat (d ''consumption'')))"

definition valid_timestamp :: "runtime \<Rightarrow> csv_record \<Rightarrow> bool" where
  "valid_timestamp R d = (dayjs_utc_toISOString R (d ''timestamp'') \<noteq> None)"

text \<open>Fixed-size chunks of a sequence, and the statements of an upload run chunk by chunk.\<close>

function chunks_of :: "nat \<Rightarrow> 'a list \<Rightarrow> 'a list list" where
  "chunks_of n xs = (if n = 0 \<or> xs = [] then [] else take n xs # chunks_of n (drop n xs))"
  by pat_completeness auto
termination
  by (relation "measure (\<lambda>(n, xs). length xs)") auto

declare chunks_of.simps [simp del]


text \<open>
  The quoting rule in the specification's words: a value containing a comma or a double
  quote is wrapped in double quotes, with every double quote inside doubled.
\<close>

definition csv_quoted :: "string \<Rightarrow> string" where
  "csv_quoted s =
     (if comma \<in> set s \<or> dquote \<in> set s
      then [dquote] @ concat (map (\<lambda>c. if c = dquote then [dquote, dquote] else [c]) s) @ [dquote]
      else s)"

definition emitted_field :: "runtime \<Rightarrow> jsvalue \<Rightarrow> string" where
  "emitted_field R v = (case v of JString s \<Rightarrow> csv_quoted s | _ \<Rightarrow> join_element R v)"








section \<open>A runtime and a store for the examples\<close>

text \<open>
  The library functions tabulated at the values the examples use: three hourly instants
  of 2025-01-01 (milliseconds since the epoch) and one half a second after the first, with
  their ISO text and their \<open>Date.prototype.toString\<close> text, which has no milliseconds;
  the Numbers 5 and 7 with their text. Every other timestamp text counts as an invalid
  date, and the clock stands at the first instant.
\<close>

definition sample_instants :: "(instant \<times> string \<times> string) list" where
  "sample_instants =
     [(1735689600000, ''2025-01-01T00:00:00.000Z'',
         ''Wed Jan 01 2025 00:00:00 GMT+0000 (Coordinated Universal Time)''),
      (1735693200000, ''2025-01-01T01:00:00.000Z'',
         ''Wed Jan 01 2025 01:00:00 GMT+0000 (Coordinated Universal Time)''),
      (1735696800000, ''2025-01-01T02:00:00.000Z'',
         ''Wed Jan 01 2025 02:00:00 GMT+0000 (Coordinated Universal Time)''),
      (1735689600500, ''2025-01-01T00:00:00.500Z'',
         ''Wed Jan 01 2025 00:00:00 GMT+0000 (Coordinated Universal Time)'')]"

definition sample_texts :: "(string \<times> instant) list" where
  "sample_texts =
     [(''2025-01-01T00:00:00Z'', 1735689600000),
      (''2025-01-01T01:00:00Z'', 1735693200000),
      (''2025-01-01T02:00:00Z'', 1735696800000)]
     @ map (\<lambda>(t, i, d). (i, t)) sample_instants
     @ map (\<lambda>(t, i, d). (d, t)) sample_instants"

definition sample_iso :: "instant \<Rightarrow> string" where
  "sample_iso t = (case map_of sample_instants t of None \<Rightarrow> [] | Some (i, d) \<Rightarrow> i)"

definition sample_runtime :: runtime where
  "sample_runtime =
     \<lparr>csv_parse = csv_reader,
      dayjs_utc_toISOString =
        (\<lambda>v. case v of
               None \<Rightarrow> Some ''2025-01-01T00:00:00.000Z''
             | Some s \<Rightarrow> map_option sample_iso (map_of sample_texts s)),
      date_toString =
        (\<lambda>t. case map_of sample_instants t of None \<Rightarrow> [] | Some (i, d) \<Rightarrow> d),
      date_toISOString = sample_iso,
      number_toString = (\<lambda>r. if r = 5 then ''5'' else if r = 7 then ''7'' else [])\<rparr>"

definition sample_engine :: engine where
  "sample_engine =
     \<lparr>stmt_fails = (\<lambda>k. False),
      timestamptz_in = map_of sample_texts,
      float8_sum = (\<lambda>xs. if xs = [Fin 5, Fin 7] then Fin 12 else NaN),
      float8_avg = (\<lambda>xs. if xs = [Fin 5, Fin 7] then Fin 6 else NaN),
      float8_stddev = (\<lambda>xs. NaN),
      date_of = (\<lambda>t. t div 86400000)\<rparr>"

definition empty_store :: store where
  "empty_store = \<lparr>energy_data = [], energy_data_id_seq = 0\<rparr>"

definition sample_store :: store where
  "sample_store =
     \<lparr>energy_data =
        [\<lparr>row_id = 1, row_timestamp = 1735689600000, row_consumption = Fin 5\<rparr>,
         \<lparr>row_id = 2, row_timestamp = 1735696800000, row_consumption = Fin 7\<rparr>],
      energy_data_id_seq = 2\<rparr>"





section \<open>Evaluation rules\<close>







section \<open>The ingest parse step\<close>

lemma on_data_Inr:
  "on_data R rows (rs, ws) = Inr (rs', ws') \<Longrightarrow>
     map consumption rs' =
       map consumption rs @ map (\<lambda>d. parseFloat (d ''consumption'')) (filter passes_validation rows) \<and>
     map (\<lambda>r. Some (timestamp r)) rs' =
       map (\<lambda>r. Some (timestamp r)) rs
         @ map (\<lambda>d. dayjs_utc_toISOString R (d ''timestamp'')) (filter passes_validation rows) \<and>
     ws' = ws @ map (\<lambda>d. invalid_consumption_warning (d ''consumption''))
                  (filter (\<lambda>d. \<not> passes_validation d) rows)"
proof (induction rows arbitrary: rs ws)
  case Nil
  then show ?case by simp
next
  case (Cons d ds)
  from Cons.prems obtain ts where ts: "dayjs_utc_toISOString R (d ''timestamp'') = Some ts"
    by (auto split: option.splits)
  show ?case
  proof (cases "isNaN (parseFloat (d ''consumption''))")
    case True
    with Cons.prems ts
    have "on_data R ds (rs, ws @ [invalid_consumption_warning (d ''consumption'')]) = Inr (rs', ws')"
      by (simp add: Let_def)
    from Cons.IH [OF this] True show ?thesis
      by (simp add: passes_validation_def)
  next
    case False
    with Cons.prems ts
    have "on_data R ds (rs @ [\<lparr>timestamp = ts, consumption = parseFloat (d ''consumption'')\<rparr>], ws)
            = Inr (rs', ws')"
      by (simp add: Let_def)
    from Cons.IH [OF this] False ts show ?thesis
      by (simp add: passes_validation_def)
  qed
qed

lemma on_data_total:
  "\<forall>d\<in>set rows. valid_timestamp R d \<Longrightarrow> \<exists>st'. on_data R rows st = Inr st'"
proof (induction rows arbitrary: st)
  case Nil
  then show ?case by simp
next
  case (Cons d ds)
  obtain rs ws where st: "st = (rs, ws)" by (cases st)
  from Cons.prems obtain ts where ts: "dayjs_utc_toISOString R (d ''timestamp'') = Some ts"
    by (auto simp: valid_timestamp_def)
  from Cons.prems have rest: "\<forall>d\<in>set ds. valid_timestamp R d" by simp
  show ?case
    using Cons.IH [OF rest] by (simp add: st ts Let_def)
qed


lemma parseCsv_all_invalid:
  assumes "snd (csv_parse R src) = None"
      and "\<forall>d\<in>set (data_rows R src). valid_timestamp R d \<and> \<not> passes_validation d"
  shows "\<exists>warnings. parseCsv R src = Inr ([], warnings)"
proof -
  from assms(2) obtain st where run: "on_data R (data_rows R src) ([], []) = Inr st"
    using on_data_total by blast
  obtain rs ws where st: "st = (rs, ws)" by (cases st)
  from assms(2) have "filter passes_validation (data_rows R src) = []"
    by (simp add: filter_empty_conv)
  with on_data_Inr [OF run [unfolded st]] have "rs = []" by simp
  with run st assms(1) show ?thesis
    by (auto simp: parseCsv_def data_rows_def split: prod.splits)
qed





section \<open>The CSV renderer\<close>

lemma str_includes_set: "str_includes s ch = (ch \<in> set s)"
  by (induction s) auto

lemma replace_quotes_concat:
  "replace_quotes s = concat (map (\<lambda>c. if c = dquote then [dquote, dquote] else [c]) s)"
  by (induction s) auto

lemma join_element_csv_cell: "join_element R (csv_cell v) = emitted_field R v"
  by (cases v)
     (simp_all add: csv_cell_def emitted_field_def join_element_def js_ToString_def csv_quoted_def
        str_includes_set replace_quotes_concat)

text \<open>
  Claim C8. The text \<open>recordsToCsv\<close> produces is the header line followed by one line per
  record, each the fields of the record in header order joined by commas, where a string
  value is emitted by the quoting rule \<open>csv_quoted\<close> whatever its column: wrapped in double
  quotes with the inner double quotes doubled when it contains a comma or a double quote,
  verbatim otherwise. Values that are not strings (Numbers, dates) go through \<open>ToString\<close>.
\<close>

theorem recordsToCsv_escaping:
  "recordsToCsv R records headers =
     js_join [newline]
       (js_join [comma] headers #
        map (\<lambda>record.
               js_join [comma]
                 (map (\<lambda>header. emitted_field R (get_property record header)) headers))
          records)"
  by (simp add: recordsToCsv_def join_element_csv_cell)

theorem recordsToCsv_escaping_witness:
  "recordsToCsv sample_runtime
     [[''metric'' \<mapsto> JString ''a,b'',
       ''value'' \<mapsto> JString (''say '' @ [dquote] @ ''hi'' @ [dquote])],
      [''metric'' \<mapsto> JString ''plain'', ''value'' \<mapsto> JNumber (Fin 7)]]
     [''metric'', ''value'']
   = ''metric,value'' @ [newline] @
     [dquote] @ ''a,b'' @ [dquote] @ '','' @
     [dquote] @ ''say '' @ [dquote, dquote] @ ''hi'' @ [dquote, dquote, dquote] @ [newline] @
     ''plain,7''"
  by (simp add: recordsToCsv_escaping emitted_field_def csv_quoted_def get_property_def
        join_element_def js_ToString_def js_number_toString_def sample_runtime_def
        comma_def dquote_def newline_def)

section \<open>The aggregator\<close>

lemma floor_half: "\<lfloor>(1::rat) / 2\<rfloor> = 0"
  by (rule floor_unique) simp_all

lemma round2_zero [simp]: "round2 (Fin 0) = Fin 0"
  by (simp add: round2_def js_mul100_def js_overflow_def Math_round_def js_div100_def floor_half)

lemma js_or0_zero [simp]: "js_or0 (Fin 0) = Fin 0"
  by (simp add: js_or0_def)

lemma js_or0_NaN: "js_or0 NaN = Fin 0"
  by (simp add: js_or0_def)

lemma floor_int_half: "\<lfloor>(of_int n :: rat) + 1 / 2\<rfloor> = n"
  by (rule floor_unique) simp_all

lemma round2_int:
  assumes "\<bar>n\<bar> < 10 ^ 300"
  shows "round2 (Fin (of_int n)) = Fin (of_int n)"
proof -
  have "(10::rat) ^ 300 * 100 < 2 ^ 1024 - 2 ^ 970" by simp
  moreover from assms have "\<bar>(of_int n :: rat)\<bar> < 10 ^ 300"
    by (metis of_int_abs of_int_less_iff of_int_numeral of_int_power)
  ultimately have b: "\<bar>(of_int n :: rat) * 100\<bar> < 2 ^ 1024 - 2 ^ 970"
    by (simp add: abs_mult)
  then have ov: "js_overflow (of_int n * 100) = Fin (of_int (n * 100))"
    by (auto simp: js_overflow_def)
  have "Math_round (Fin (of_int (n * 100))) = Fin (of_int (n * 100))"
    unfolding Math_round_def by (simp only: jsnum.case floor_int_half)
  then show ?thesis
    by (simp add: round2_def js_mul100_def ov js_div100_def)
qed

text \<open>
  Claim C6. On an empty table both aggregate statements still return their one row; with
  the statement succeeding, \<open>GET /metrics\<close> answers \<open>count_points = 0\<close>, the three
  consumption figures \<open>0\<close> and a null \<open>peak_timestamp\<close>, and \<open>GET /metrics/summary\<close> answers
  null bounds, \<open>0\<close> for minimum, maximum and standard deviation, and \<open>days_of_data = 0\<close>.
\<close>

theorem aggregator_on_empty_store:
  assumes "energy_data db = []" and "\<not> stmt_fails G 0"
  shows "get_metrics G db =
           OK \<lparr>count_points = 0, total_consumption = Fin 0, avg_consumption = Fin 0,
               peak_consumption = Fin 0, peak_timestamp = None\<rparr> \<and>
         get_metrics_summary G db =
           OK \<lparr>earliest_timestamp = None, latest_timestamp = None, min_consumption = Fin 0,
               max_consumption = Fin 0, consumption_stddev = Fin 0, days_of_data = 0\<rparr>"
proof
  show "get_metrics G db =
           OK \<lparr>count_points = 0, total_consumption = Fin 0, avg_consumption = Fin 0,
               peak_consumption = Fin 0, peak_timestamp = None\<rparr>"
    using assms
    by (simp add: get_metrics_def run_query_def metrics_query_def metrics_response_def
          sql_aggregate_def coalesce0_def sql_max_def peak_lateral_def)
  show "get_metrics_summary G db =
           OK \<lparr>earliest_timestamp = None, latest_timestamp = None, min_consumption = Fin 0,
               max_consumption = Fin 0, consumption_stddev = Fin 0, days_of_data = 0\<rparr>"
    using assms
    by (simp add: get_metrics_summary_def run_query_def summary_query_def summary_response_def
          coalesce0_def sql_max_def sql_min_def sql_stddev_def sql_min_timestamp_def
          sql_max_timestamp_def)
qed

theorem aggregator_on_empty_store_witness:
  "get_metrics sample_engine empty_store =
     OK \<lparr>count_points = 0, total_consumption = Fin 0, avg_consumption = Fin 0,
         peak_consumption = Fin 0, peak_timestamp = None\<rparr> \<and>
   get_metrics_summary sample_engine empty_store =
     OK \<lparr>earliest_timestamp = None, latest_timestamp = None, min_consumption = Fin 0,
         max_consumption = Fin 0, consumption_stddev = Fin 0, days_of_data = 0\<rparr>"
  by (rule aggregator_on_empty_store) (simp_all add: empty_store_def sample_engine_def)

subsection \<open>The peak\<close>













lemma sample_metrics_query:
  "metrics_query sample_engine (energy_data sample_store) =
     [\<lparr>count_points = 2, total_consumption = Fin 12, avg_consumption = Fin 6,
       peak_consumption = Fin 7, peak_timestamp = Some 1735696800000\<rparr>]"
  by (simp add: metrics_query_def sample_store_def sample_engine_def sql_aggregate_def
        coalesce0_def sql_max_def f8_le_def f8_key_def peak_lateral_def)

text \<open>The store after the upload of the sample source, as \<open>GET /metrics\<close> reports it.\<close>

lemma get_metrics_sample:
  "get_metrics sample_engine sample_store =
     OK \<lparr>count_points = 2, total_consumption = Fin 12, avg_consumption = Fin 6,
         peak_consumption = Fin 7, peak_timestamp = Some 1735696800000\<rparr>"
proof -
  have up: "\<not> stmt_fails sample_engine 0" by (simp add: sample_engine_def)
  show ?thesis
    using round2_int [of 12] round2_int [of 6] round2_int [of 7] up
    by (simp add: get_metrics_def run_query_def sample_metrics_query metrics_response_def
          js_or0_def)
qed


section \<open>\<open>GET /data\<close>: limit, pagination, order\<close>














lemma default_page_pos: "1 \<le> default_page p"
  by (auto simp: default_page_def split: option.splits)














section \<open>The upload\<close>



lemma chunks_of_Nil [simp]: "chunks_of n [] = []"
  by (simp add: chunks_of.simps)










section \<open>Export and parse\<close>

























end
